theory Spec2Isabelle
  imports Main "HOL-Library.Word" "HOL-Library.Mapping"
begin

unbundle bit_operations_syntax

section \<open>Data model of the RPC layer (core/rpc/apis.go)\<close>

text \<open>
  Go's \<^verbatim>\<open>uint64\<close> is a 64-bit word: \<open>i++\<close> wraps around.  A \<^verbatim>\<open>common.Address\<close> is a
  \<^verbatim>\<open>[20]byte\<close> array and a \<^verbatim>\<open>common.Hash\<close> a \<^verbatim>\<open>[32]byte\<close> array; arrays of a fixed
  number of bytes compare bytewise, so they are the words of 160 and 256 bits.  The
  literal \<^verbatim>\<open>common.Address{0}\<close> sets the first byte to zero and leaves the other bytes at
  their zero value: it is the word \<open>0\<close>.
\<close>

type_synonym uint64 = "64 word"
type_synonym address = "160 word"
type_synonym hash = "256 word"

text \<open>An \<^verbatim>\<open>error\<close> value made by \<^verbatim>\<open>errors.New(msg)\<close>; the \<^verbatim>\<open>nil\<close> error is \<open>None\<close>.\<close>

datatype error = Error string

text \<open>
  \<^verbatim>\<open>map[common.Hash]string\<close>: a Go map value is either \<^verbatim>\<open>nil\<close> (\<open>None\<close>) or a
  map, which may have no entry at all.  The test \<^verbatim>\<open>rawStorage == nil\<close> tells the two apart.
\<close>

type_synonym rawStorage = "(hash, string) mapping option"

record 'p ParsedState =
  BlockNumber :: uint64
  HistoricStorage :: 'p

record 'p ReportingResponseTemplate =
  Address :: address
  HistoricState :: "'p ParsedState list"

section \<open>GetStorageHistory\<close>

text \<open>
  The database \<^verbatim>\<open>r.db\<close> is an interface value whose implementation is not part of the
  sources at hand, and so is \<^verbatim>\<open>parseRawStorage\<close>: both are parameters of the model.
  \<^item> \<open>getStorage address i\<close> is \<^verbatim>\<open>r.db.GetStorage(address, i)\<close>, a pair of a map and an
    error as in Go;
  \<^item> \<open>parseRawStorage raw template\<close> is the pair of the parsed storage and an error.
  The database is read, not written, by the call, so \<open>getStorage\<close> is a function of the
  address and the block; the line that \<^verbatim>\<open>fmt.Println\<close> writes to the standard output is
  no part of the result and is left out.
  A call of the function may not return (the loop counter wraps around), so the loop is
  a partial function: \<open>None\<close> means that the call does not return.  A returned value is
  the Go result pair together with the block numbers passed to \<^verbatim>\<open>GetStorage\<close>, in the
  order of the calls.
\<close>

partial_function (option) GetStorageHistory_loop ::
  "(address \<Rightarrow> uint64 \<Rightarrow> rawStorage \<times> error option) \<Rightarrow>
   ((hash, string) mapping \<Rightarrow> 't \<Rightarrow> 'p \<times> error option) \<Rightarrow>
   address \<Rightarrow> uint64 \<Rightarrow> 't \<Rightarrow> uint64 \<Rightarrow> 'p ParsedState list \<Rightarrow> uint64 list \<Rightarrow>
   (('p ReportingResponseTemplate option \<times> error option) \<times> uint64 list) option"
where
  "GetStorageHistory_loop getStorage parseRawStorage address endBlockNumber template
       i historicStates calls =
     (if i \<le> endBlockNumber then
        (case getStorage address i of (rawStorage, err) \<Rightarrow>
          (case err of
             Some e \<Rightarrow> Some ((None, Some e), calls @ [i])
           | None \<Rightarrow>
              (case rawStorage of
                 None \<Rightarrow>
                   GetStorageHistory_loop getStorage parseRawStorage address endBlockNumber
                     template (i + 1) historicStates (calls @ [i])
               | Some raw \<Rightarrow>
                   (case parseRawStorage raw template of (historicStorage, err) \<Rightarrow>
                     (case err of
                        Some e \<Rightarrow> Some ((None, Some e), calls @ [i])
                      | None \<Rightarrow>
                          GetStorageHistory_loop getStorage parseRawStorage address
                            endBlockNumber template (i + 1)
                            (historicStates @
                               [\<lparr>BlockNumber = i, HistoricStorage = historicStorage\<rparr>])
                            (calls @ [i]))))))
      else Some ((Some \<lparr>Address = address, HistoricState = historicStates\<rparr>, None), calls))"

definition GetStorageHistory ::
  "(address \<Rightarrow> uint64 \<Rightarrow> rawStorage \<times> error option) \<Rightarrow>
   ((hash, string) mapping \<Rightarrow> 't \<Rightarrow> 'p \<times> error option) \<Rightarrow>
   address \<Rightarrow> uint64 \<Rightarrow> uint64 \<Rightarrow> 't \<Rightarrow>
   (('p ReportingResponseTemplate option \<times> error option) \<times> uint64 list) option"
where
  "GetStorageHistory getStorage parseRawStorage address startBlockNumber endBlockNumber template =
     GetStorageHistory_loop getStorage parseRawStorage address endBlockNumber template
       startBlockNumber [] []"

subsection \<open>What one iteration does\<close>

text \<open>
  The error, if any, that the loop body meets at block \<open>i\<close>: the one of the fetch, or
  else the one of the decoding of a non-nil storage.
\<close>

definition block_error ::
  "(address \<Rightarrow> uint64 \<Rightarrow> rawStorage \<times> error option) \<Rightarrow>
   ((hash, string) mapping \<Rightarrow> 't \<Rightarrow> 'p \<times> error option) \<Rightarrow>
   address \<Rightarrow> 't \<Rightarrow> uint64 \<Rightarrow> error option"
where
  "block_error getStorage parseRawStorage address template i =
     (case snd (getStorage address i) of
        Some e \<Rightarrow> Some e
      | None \<Rightarrow>
         (case fst (getStorage address i) of
            None \<Rightarrow> None
          | Some raw \<Rightarrow> snd (parseRawStorage raw template)))"

text \<open>The states that the loop body appends at block \<open>i\<close> when it meets no error.\<close>

definition block_states ::
  "(address \<Rightarrow> uint64 \<Rightarrow> rawStorage \<times> error option) \<Rightarrow>
   ((hash, string) mapping \<Rightarrow> 't \<Rightarrow> 'p \<times> error option) \<Rightarrow>
   address \<Rightarrow> 't \<Rightarrow> uint64 \<Rightarrow> 'p ParsedState list"
where
  "block_states getStorage parseRawStorage address template i =
     (case fst (getStorage address i) of
        None \<Rightarrow> []
      | Some raw \<Rightarrow>
          [\<lparr>BlockNumber = i, HistoricStorage = fst (parseRawStorage raw template)\<rparr>])"

text \<open>The \<open>n\<close> block numbers from \<open>i\<close> on, and the blocks from \<open>s\<close> to \<open>e\<close> inclusive.\<close>

definition blocks_from :: "uint64 \<Rightarrow> nat \<Rightarrow> uint64 list" where
  "blocks_from i n = map (\<lambda>m. i + word_of_nat m) [0..<n]"

definition block_range :: "uint64 \<Rightarrow> uint64 \<Rightarrow> uint64 list" where
  "block_range s e = (if s \<le> e then blocks_from s (Suc (unat (e - s))) else [])"

text \<open>\<^verbatim>\<open>math.MaxUint64\<close>, the largest block number.\<close>

definition MaxUint64 :: uint64 where
  "MaxUint64 = 18446744073709551615"

subsection \<open>Concrete databases and decoders for the scenarios\<close>

definition storage_one :: "(hash, string) mapping" where
  "storage_one = Mapping.update 0 ''0x01'' Mapping.empty"

text \<open>A decoder that hands the raw storage back and never fails, and one that always fails.\<close>

definition parse_id :: "(hash, string) mapping \<Rightarrow> unit \<Rightarrow> (hash, string) mapping \<times> error option" where
  "parse_id raw template = (raw, None)"

definition parse_fail :: "(hash, string) mapping \<Rightarrow> unit \<Rightarrow> (hash, string) mapping \<times> error option" where
  "parse_fail raw template = (raw, Some (Error ''decode failed''))"

text \<open>The fetch fails at block 2 and gives a one-entry storage elsewhere.\<close>

definition db_fail_second :: "address \<Rightarrow> uint64 \<Rightarrow> rawStorage \<times> error option" where
  "db_fail_second a i =
     (if i = 2 then (None, Some (Error ''no record found'')) else (Some storage_one, None))"

text \<open>The fetch fails at every block.\<close>

definition db_unregistered :: "address \<Rightarrow> uint64 \<Rightarrow> rawStorage \<times> error option" where
  "db_unregistered a i = (None, Some (Error ''address is not registered''))"

text \<open>A one-entry storage at block 11 and the nil map at every other block.\<close>

definition db_sparse :: "address \<Rightarrow> uint64 \<Rightarrow> rawStorage \<times> error option" where
  "db_sparse a i = (if i = 11 then (Some storage_one, None) else (None, None))"

text \<open>A map without entries, but not nil, at every block.\<close>

definition db_empty_maps :: "address \<Rightarrow> uint64 \<Rightarrow> rawStorage \<times> error option" where
  "db_empty_maps a i = (Some Mapping.empty, None)"

section \<open>The query operations and AddAddress\<close>

text \<open>
  \<^verbatim>\<open>options *types.QueryOptions\<close> is a pointer: \<open>None\<close> is \<^verbatim>\<open>nil\<close>.  The type
  \<^verbatim>\<open>types.QueryOptions\<close>, its zero value \<^verbatim>\<open>types.QueryOptions{}\<close> and its method
  \<^verbatim>\<open>SetDefaults\<close> are declared outside the sources at hand: the type is the type variable
  \<open>'q\<close>, and \<open>emptyOptions\<close> and \<open>SetDefaults\<close> are parameters, as are the methods of
  the database.  \<^verbatim>\<open>options.SetDefaults()\<close> reads and writes through the pointer, so on a
  \<^verbatim>\<open>nil\<close> pointer the call panics: the result \<open>None\<close> of the three operations stands
  for that panic.
\<close>

definition GetAllTransactionsToAddress ::
  "('q \<Rightarrow> 'q) \<Rightarrow> 'q \<Rightarrow> (address \<Rightarrow> 'q \<Rightarrow> hash list \<times> error option) \<Rightarrow>
   address \<Rightarrow> 'q option \<Rightarrow> (hash list \<times> error option) option"
where
  "GetAllTransactionsToAddress SetDefaults emptyOptions dbGetAllTransactionsToAddress address options =
     (let options = (if options = None then Some emptyOptions else options) in
      case options of
        None \<Rightarrow> None
      | Some opts \<Rightarrow> Some (dbGetAllTransactionsToAddress address (SetDefaults opts)))"

definition GetAllTransactionsInternalToAddress ::
  "('q \<Rightarrow> 'q) \<Rightarrow> 'q \<Rightarrow> (address \<Rightarrow> 'q \<Rightarrow> hash list \<times> error option) \<Rightarrow>
   address \<Rightarrow> 'q option \<Rightarrow> (hash list \<times> error option) option"
where
  "GetAllTransactionsInternalToAddress SetDefaults emptyOptions dbGetAllTransactionsInternalToAddress
       address options =
     (let options = (if options = None then Some emptyOptions else options) in
      case options of
        None \<Rightarrow> None
      | Some opts \<Rightarrow> Some (dbGetAllTransactionsInternalToAddress address (SetDefaults opts)))"

text \<open>
  The loop of \<^verbatim>\<open>GetAllEventsFromAddress\<close> over the events: \<open>newParsedEvent e\<close> is
  \<^verbatim>\<open>&types.ParsedEvent{RawEvent: e}\<close> and \<open>ParseEvent pe abi\<close> is the event after
  \<^verbatim>\<open>pe.ParseEvent(abi)\<close> together with the error of that call.  The first error ends
  the loop with \<^verbatim>\<open>(nil, err)\<close>; the \<^verbatim>\<open>nil\<close> slice is \<open>None\<close>.
\<close>

fun parseEvents ::
  "('ev \<Rightarrow> 'pe) \<Rightarrow> ('pe \<Rightarrow> string \<Rightarrow> 'pe \<times> error option) \<Rightarrow> string \<Rightarrow> 'ev list \<Rightarrow> 'pe list \<Rightarrow>
   'pe list option \<times> error option"
where
  "parseEvents newParsedEvent ParseEvent contractABI [] parsedEvents = (Some parsedEvents, None)"
| "parseEvents newParsedEvent ParseEvent contractABI (e # events) parsedEvents =
     (if contractABI \<noteq> [] then
        (case ParseEvent (newParsedEvent e) contractABI of (pe, err) \<Rightarrow>
          (case err of
             Some er \<Rightarrow> (None, Some er)
           | None \<Rightarrow>
               parseEvents newParsedEvent ParseEvent contractABI events (parsedEvents @ [pe])))
      else parseEvents newParsedEvent ParseEvent contractABI events
             (parsedEvents @ [newParsedEvent e]))"

definition GetAllEventsFromAddress ::
  "('q \<Rightarrow> 'q) \<Rightarrow> 'q \<Rightarrow> (address \<Rightarrow> 'q \<Rightarrow> 'ev list \<times> error option) \<Rightarrow>
   (address \<Rightarrow> string \<times> error option) \<Rightarrow> ('ev \<Rightarrow> 'pe) \<Rightarrow>
   ('pe \<Rightarrow> string \<Rightarrow> 'pe \<times> error option) \<Rightarrow>
   address \<Rightarrow> 'q option \<Rightarrow> ('pe list option \<times> error option) option"
where
  "GetAllEventsFromAddress SetDefaults emptyOptions dbGetAllEventsFromAddress dbGetContractABI
       newParsedEvent ParseEvent address options =
     (let options = (if options = None then Some emptyOptions else options) in
      case options of
        None \<Rightarrow> None
      | Some opts \<Rightarrow>
          Some (case dbGetAllEventsFromAddress address (SetDefaults opts) of (events, err) \<Rightarrow>
            (case err of
               Some er \<Rightarrow> (None, Some er)
             | None \<Rightarrow>
                (case dbGetContractABI address of (contractABI, err) \<Rightarrow>
                  (case err of
                     Some er \<Rightarrow> (None, Some er)
                   | None \<Rightarrow> parseEvents newParsedEvent ParseEvent contractABI events [])))))"

text \<open>
  \<^verbatim>\<open>AddAddress\<close>: the database is a state \<open>'db\<close>, and \<open>dbAddAddresses\<close> is its method
  \<^verbatim>\<open>AddAddresses\<close>, which returns an error and the database after the call.
\<close>

definition AddAddress ::
  "(address list \<Rightarrow> 'db \<Rightarrow> error option \<times> 'db) \<Rightarrow> address \<Rightarrow> 'db \<Rightarrow> error option \<times> 'db"
where
  "AddAddress dbAddAddresses address db =
     (if address = 0 then (Some (Error ''invalid input''), db)
      else dbAddAddresses [address] db)"

subsection \<open>Concrete collaborators for the scenarios\<close>

text \<open>Query options with a page size, where \<open>0\<close> stands for "not set" and defaults to 10.\<close>

definition pageDefaults :: "nat \<Rightarrow> nat" where
  "pageDefaults pageSize = (if pageSize = 0 then 10 else pageSize)"

text \<open>
  A database that answers every query with one transaction hash, or one event, that is
  the page size it was asked for; it has no contract ABI.
\<close>

definition db_one_tx :: "address \<Rightarrow> nat \<Rightarrow> hash list \<times> error option" where
  "db_one_tx a pageSize = ([word_of_nat pageSize], None)"

definition db_one_event :: "address \<Rightarrow> nat \<Rightarrow> nat list \<times> error option" where
  "db_one_event a pageSize = ([pageSize], None)"

definition db_no_abi :: "address \<Rightarrow> string \<times> error option" where
  "db_no_abi a = ([], None)"

definition event_id :: "nat \<Rightarrow> nat" where
  "event_id e = e"

definition parse_event_id :: "nat \<Rightarrow> string \<Rightarrow> nat \<times> error option" where
  "parse_event_id pe abi = (pe, None)"

text \<open>An in-memory database: the list of the registered addresses.\<close>

definition mem_AddAddresses :: "address list \<Rightarrow> address list \<Rightarrow> error option \<times> address list" where
  "mem_AddAddresses new db = (None, db @ new)"

section \<open>The storage parsing helpers\<close>

text \<open>
  Modelled from the spec: \<^verbatim>\<open>roundUpTo32\<close> is not among the sources at hand (only its
  tests are).  The spec: "ceiling to the next multiple of 32 (0 maps to 0), used to size
  multi-word byte buffers", over unsigned integers.
\<close>

definition roundUpTo32 :: "nat \<Rightarrow> nat" where
  "roundUpTo32 n = ((n + 31) div 32) * 32"

text \<open>
  Modelled from the spec: \<^verbatim>\<open>ExtractFromSingleStorage\<close> is not among the sources at hand
  (only its tests are).  The spec: "returns the length-byte window located offset bytes in
  from the least-significant (right-hand) end of rawBytes [...].  Reads extending past the
  available bytes are treated as zero".  \<open>byte_from_right bs p\<close> is the byte \<open>p\<close> places
  from the right-hand end of \<open>bs\<close>, zero beyond the left-hand end.
\<close>

definition byte_from_right :: "8 word list \<Rightarrow> nat \<Rightarrow> 8 word" where
  "byte_from_right bs p = (if p < length bs then bs ! (length bs - 1 - p) else 0)"

definition ExtractFromSingleStorage :: "nat \<Rightarrow> nat \<Rightarrow> 8 word list \<Rightarrow> 8 word list" where
  "ExtractFromSingleStorage offset numberOfBytes rawBytes =
     map (\<lambda>k. byte_from_right rawBytes (offset + numberOfBytes - 1 - k)) [0..<numberOfBytes]"

section \<open>The slot hasher\<close>

text \<open>
  Modelled from the spec: \<^verbatim>\<open>hash\<close> is not among the sources at hand (only its tests
  are).  The spec: "input is either a single 32-byte canonical big-endian encoding [...] or
  a 64-byte concatenation of two 32-byte encodings [...]; output is the 32-byte digest of
  the VM's fixed cryptographic hash function".  The virtual machine of the node is the
  Ethereum one, and its hash function is Keccak-256: the sponge over the permutation
  Keccak-f[1600] with a rate of 136 bytes, the padding \<open>pad10*1\<close> and a digest of 32
  bytes.  The two vectors of the tests pin that choice down.

  A lane is a list of 64 bits, the least significant bit first; the state is the list of
  the 25 lanes, the lane of the column \<open>x\<close> and the row \<open>y\<close> at the index \<open>x + 5 * y\<close>.
\<close>

type_synonym lane = "bool list"

definition xorL :: "lane \<Rightarrow> lane \<Rightarrow> lane" where
  "xorL a b = map2 (\<lambda>p q. p \<noteq> q) a b"

definition andnotL :: "lane \<Rightarrow> lane \<Rightarrow> lane" where
  "andnotL a b = map2 (\<lambda>p q. \<not> p \<and> q) a b"

text \<open>The rotation of a lane towards the most significant bit, by one place and by \<open>n\<close>.\<close>

definition rot1 :: "lane \<Rightarrow> lane" where
  "rot1 a = last a # butlast a"

fun rotL :: "nat \<Rightarrow> lane \<Rightarrow> lane" where
  "rotL 0 a = a"
| "rotL (Suc n) a = rotL n (rot1 a)"

text \<open>The five steps of a round.\<close>

definition theta_C :: "lane list \<Rightarrow> lane list" where
  "theta_C A = map (\<lambda>x. xorL (A ! x) (xorL (A ! (x + 5)) (xorL (A ! (x + 10))
                 (xorL (A ! (x + 15)) (A ! (x + 20)))))) [0, 1, 2, 3, 4]"

definition theta_D :: "lane list \<Rightarrow> lane list" where
  "theta_D C = map (\<lambda>x. xorL (C ! ((x + 4) mod 5)) (rotL 1 (C ! ((x + 1) mod 5)))) [0, 1, 2, 3, 4]"

definition theta_apply :: "lane list \<Rightarrow> lane list \<Rightarrow> lane list" where
  "theta_apply A D = map (\<lambda>i. xorL (A ! i) (D ! (i mod 5))) [0..<25]"

definition theta_step :: "lane list \<Rightarrow> lane list" where
  "theta_step A = theta_apply A (theta_D (theta_C A))"

definition rho_offsets :: "nat list" where
  "rho_offsets = [0, 1, 62, 28, 27, 36, 44, 6, 55, 20, 3, 10, 43, 25, 39, 41, 45, 15, 21, 8,
                  18, 2, 61, 56, 14]"

definition rho_step :: "lane list \<Rightarrow> lane list" where
  "rho_step A = map2 rotL rho_offsets A"

definition pi_step :: "lane list \<Rightarrow> lane list" where
  "pi_step A = map (\<lambda>j. A ! ((j mod 5 + 3 * (j div 5)) mod 5 + 5 * (j mod 5))) [0..<25]"

definition chi_step :: "lane list \<Rightarrow> lane list" where
  "chi_step B = map (\<lambda>j. xorL (B ! j)
                   (andnotL (B ! ((j mod 5 + 1) mod 5 + 5 * (j div 5)))
                            (B ! ((j mod 5 + 2) mod 5 + 5 * (j div 5))))) [0..<25]"

definition iota_step :: "lane \<Rightarrow> lane list \<Rightarrow> lane list" where
  "iota_step rc A = xorL (hd A) rc # tl A"

definition keccak_round :: "lane \<Rightarrow> lane list \<Rightarrow> lane list" where
  "keccak_round rc A = iota_step rc (chi_step (pi_step (rho_step (theta_step A))))"

fun keccak_rounds :: "lane list \<Rightarrow> lane list \<Rightarrow> lane list" where
  "keccak_rounds [] A = A"
| "keccak_rounds (rc # rcs) A = keccak_rounds rcs (keccak_round rc A)"

definition round_constants :: "nat list" where
  "round_constants =
     [0x0000000000000001, 0x0000000000008082, 0x800000000000808A, 0x8000000080008000,
      0x000000000000808B, 0x0000000080000001, 0x8000000080008081, 0x8000000000008009,
      0x000000000000008A, 0x0000000000000088, 0x0000000080008009, 0x000000008000000A,
      0x000000008000808B, 0x800000000000008B, 0x8000000000008089, 0x8000000000008003,
      0x8000000000008002, 0x8000000000000080, 0x000000000000800A, 0x800000008000000A,
      0x8000000080008081, 0x8000000000008080, 0x0000000080000001, 0x8000000080008008]"

text \<open>The \<open>k\<close> low bits of a number, the least significant first, and back.\<close>

fun bits_of_nat :: "nat \<Rightarrow> nat \<Rightarrow> bool list" where
  "bits_of_nat 0 n = []"
| "bits_of_nat (Suc k) n = odd n # bits_of_nat k (n div 2)"

fun nat_of_bits :: "bool list \<Rightarrow> nat" where
  "nat_of_bits [] = 0"
| "nat_of_bits (b # bs) = of_bool b + 2 * nat_of_bits bs"

definition keccak_f :: "lane list \<Rightarrow> lane list" where
  "keccak_f A = keccak_rounds (map (bits_of_nat 64) round_constants) A"

text \<open>
  The sponge: the message is padded to a multiple of 136 bytes and cut into blocks of 17
  lanes (eight bytes to a lane, the least significant byte first); each block is added
  to the first 17 lanes of the state, which is then permuted; the digest is the bytes of
  the first four lanes.
\<close>

definition pad10star1 :: "8 word list \<Rightarrow> 8 word list" where
  "pad10star1 msg =
     (let q = 136 - length msg mod 136 in
      if q = 1 then msg @ [0x81] else msg @ [0x01] @ replicate (q - 2) 0 @ [0x80])"

definition bits_of_byte :: "8 word \<Rightarrow> bool list" where
  "bits_of_byte b = bits_of_nat 8 (unat b)"

definition byte_of_bits :: "bool list \<Rightarrow> 8 word" where
  "byte_of_bits bs = word_of_nat (nat_of_bits bs)"

definition blocks_of :: "8 word list \<Rightarrow> 8 word list list" where
  "blocks_of p = map (\<lambda>k. take 136 (drop (136 * k) p)) [0..<length p div 136]"

definition lanes_of_block :: "8 word list \<Rightarrow> lane list" where
  "lanes_of_block block =
     map (\<lambda>i. concat (map bits_of_byte (take 8 (drop (8 * i) block)))) [0..<17]"

definition bytes_of_lane :: "lane \<Rightarrow> 8 word list" where
  "bytes_of_lane l = map (\<lambda>i. byte_of_bits (take 8 (drop (8 * i) l))) [0..<8]"

definition absorb :: "lane list \<Rightarrow> lane list \<Rightarrow> lane list" where
  "absorb A blockLanes =
     keccak_f (map2 xorL A (blockLanes @ replicate 8 (replicate 64 False)))"

definition keccak256 :: "8 word list \<Rightarrow> 8 word list" where
  "keccak256 msg =
     concat (map bytes_of_lane
       (take 4 (foldl absorb (replicate 25 (replicate 64 False))
          (map lanes_of_block (blocks_of (pad10star1 msg))))))"

definition hash :: "8 word list \<Rightarrow> 8 word list" where
  "hash bytes = keccak256 bytes"

text \<open>
  The canonical encoding of a number in 32 bytes, the most significant byte first, and
  the number that a sequence of bytes encodes that way.
\<close>

fun encode_be :: "nat \<Rightarrow> nat \<Rightarrow> 8 word list" where
  "encode_be 0 n = []"
| "encode_be (Suc k) n = encode_be k (n div 256) @ [word_of_nat (n mod 256)]"

definition encode32 :: "nat \<Rightarrow> 8 word list" where
  "encode32 n = encode_be 32 n"

definition be_nat :: "8 word list \<Rightarrow> nat" where
  "be_nat bs = foldl (\<lambda>acc b. 256 * acc + unat b) 0 bs"

section \<open>Properties of GetStorageHistory\<close>

subsection \<open>Unrolling the loop\<close>

lemma loop_step_ok:
  assumes "i \<le> e" and "block_error gs p a t i = None"
  shows "GetStorageHistory_loop gs p a e t i hs cs =
         GetStorageHistory_loop gs p a e t (i + 1) (hs @ block_states gs p a t i) (cs @ [i])"
  using assms
  by (subst GetStorageHistory_loop.simps)
     (auto simp: block_error_def block_states_def split: prod.splits option.splits)

lemma loop_step_error:
  assumes "i \<le> e" and "block_error gs p a t i = Some err"
  shows "GetStorageHistory_loop gs p a e t i hs cs = Some ((None, Some err), cs @ [i])"
  using assms
  by (subst GetStorageHistory_loop.simps)
     (auto simp: block_error_def block_states_def split: prod.splits option.splits)

lemma loop_exit:
  assumes "\<not> i \<le> e"
  shows "GetStorageHistory_loop gs p a e t i hs cs =
         Some ((Some \<lparr>Address = a, HistoricState = hs\<rparr>, None), cs)"
  using assms by (subst GetStorageHistory_loop.simps) simp

lemma blocks_from_Suc: "blocks_from i (Suc n) = i # blocks_from (i + 1) n"
  by (simp add: blocks_from_def map_upt_Suc del: upt_Suc) 

lemma loop_unroll:
  assumes "\<forall>j \<in> set (blocks_from i n). j \<le> e \<and> block_error gs p a t j = None"
  shows "GetStorageHistory_loop gs p a e t i hs cs =
         GetStorageHistory_loop gs p a e t (i + word_of_nat n)
           (hs @ concat (map (block_states gs p a t) (blocks_from i n))) (cs @ blocks_from i n)"
  using assms
proof (induction n arbitrary: i hs cs)
  case 0
  then show ?case by (simp add: blocks_from_def)
next
  case (Suc n)
  have s: "blocks_from i (Suc n) = i # blocks_from (i + 1) n" by (rule blocks_from_Suc)
  from Suc.prems have i: "i \<le> e" "block_error gs p a t i = None"
    and rest: "\<forall>j \<in> set (blocks_from (i + 1) n). j \<le> e \<and> block_error gs p a t j = None"
    unfolding s by simp_all
  have "GetStorageHistory_loop gs p a e t i hs cs =
        GetStorageHistory_loop gs p a e t (i + 1) (hs @ block_states gs p a t i) (cs @ [i])"
    using i by (rule loop_step_ok)
  also have "\<dots> = GetStorageHistory_loop gs p a e t (i + 1 + word_of_nat n)
       ((hs @ block_states gs p a t i) @ concat (map (block_states gs p a t) (blocks_from (i + 1) n)))
       ((cs @ [i]) @ blocks_from (i + 1) n)"
    using rest by (rule Suc.IH)
  finally show ?case unfolding s by (simp add: ac_simps)
qed

lemma unat_add_of_nat:
  "unat i + m < 2 ^ 64 \<Longrightarrow> unat ((i::uint64) + word_of_nat m) = unat i + m"
  by (simp add: unat_word_ariths unat_of_nat)

lemma set_blocks_from:
  assumes "unat i + n \<le> 2 ^ 64"
  shows "set (blocks_from i n) = {j::uint64. unat i \<le> unat j \<and> unat j < unat i + n}"
proof (intro set_eqI iffI)
  fix j assume "j \<in> set (blocks_from i n)"
  then obtain m where m: "m < n" "j = i + word_of_nat m" by (auto simp: blocks_from_def)
  with assms have "unat j = unat i + m" by (simp add: unat_add_of_nat)
  with m show "j \<in> {j. unat i \<le> unat j \<and> unat j < unat i + n}" by simp
next
  fix j :: uint64 assume "j \<in> {j. unat i \<le> unat j \<and> unat j < unat i + n}"
  then have j: "unat i \<le> unat j" "unat j < unat i + n" by simp_all
  define m where "m = unat j - unat i"
  have "m < n" using j by (simp add: m_def)
  moreover have "unat i + m < 2 ^ 64" using j assms by (simp add: m_def)
  then have "unat (i + word_of_nat m) = unat i + m" by (rule unat_add_of_nat)
  then have "unat (i + word_of_nat m) = unat j" using j by (simp add: m_def)
  then have "j = i + word_of_nat m" by (simp add: word_unat_eq_iff)
  ultimately show "j \<in> set (blocks_from i n)" by (auto simp: blocks_from_def)
qed

lemma sorted_blocks_from:
  assumes "unat i + n \<le> 2 ^ 64"
  shows "sorted_wrt (<) (blocks_from i n)"
proof -
  have "blocks_from i n ! x < blocks_from i n ! y" if "x < y" "y < n" for x y
    using that assms by (simp add: blocks_from_def word_less_nat_alt unat_add_of_nat)
  then show ?thesis by (simp add: sorted_wrt_iff_nth_less blocks_from_def)
qed

lemma range_fits: "s \<le> e \<Longrightarrow> unat (s::uint64) + Suc (unat (e - s)) \<le> 2 ^ 64"
proof -
  assume "s \<le> e"
  moreover have "unat e < 2 ^ 64" using unsigned_less [of e] by simp
  ultimately show ?thesis by (simp add: unat_sub word_le_nat_alt)
qed

lemma set_block_range: "set (block_range s e) = {j. s \<le> j \<and> j \<le> e}"
proof (cases "s \<le> e")
  case True
  then have "set (block_range s e) = {j. unat s \<le> unat j \<and> unat j < unat s + Suc (unat (e - s))}"
    by (simp add: block_range_def set_blocks_from [OF range_fits])
  also have "\<dots> = {j. s \<le> j \<and> j \<le> e}"
    using True by (auto simp: unat_sub word_le_nat_alt)
  finally show ?thesis .
next
  case False
  then show ?thesis by (auto simp: block_range_def)
qed

lemma sorted_block_range: "sorted_wrt (<) (block_range s e)"
  by (simp add: block_range_def sorted_blocks_from [OF range_fits])

lemma length_block_range:
  "length (block_range s e) = (if s \<le> e then unat e - unat s + 1 else 0)"
  by (simp add: block_range_def blocks_from_def unat_sub)

lemma blocks_from_snoc: "blocks_from i (Suc n) = blocks_from i n @ [i + word_of_nat n]"
  by (simp add: blocks_from_def)

lemma GetStorageHistory_no_error:
  assumes "e \<noteq> - 1"
    and "\<forall>j \<in> set (block_range s e). block_error gs p a t j = None"
  shows "GetStorageHistory gs p a s e t =
         Some ((Some \<lparr>Address = a,
                  HistoricState = concat (map (block_states gs p a t) (block_range s e))\<rparr>, None),
               block_range s e)"
proof (cases "s \<le> e")
  case True
  let ?n = "Suc (unat (e - s))"
  have r: "block_range s e = blocks_from s ?n" using True by (simp add: block_range_def)
  have "\<forall>j \<in> set (blocks_from s ?n). j \<le> e \<and> block_error gs p a t j = None"
    using assms(2) set_block_range [of s e] unfolding r by auto
  then have "GetStorageHistory_loop gs p a e t s [] [] =
      GetStorageHistory_loop gs p a e t (s + word_of_nat ?n)
        ([] @ concat (map (block_states gs p a t) (blocks_from s ?n))) ([] @ blocks_from s ?n)"
    by (rule loop_unroll)
  also have "s + word_of_nat ?n = e + 1" by simp
  also have "GetStorageHistory_loop gs p a e t (e + 1)
        ([] @ concat (map (block_states gs p a t) (blocks_from s ?n))) ([] @ blocks_from s ?n) =
      Some ((Some \<lparr>Address = a,
               HistoricState = [] @ concat (map (block_states gs p a t) (blocks_from s ?n))\<rparr>, None),
            [] @ blocks_from s ?n)"
    using assms(1) by (intro loop_exit) (simp add: inc_less_eq_self_iff_eq)
  finally show ?thesis
    by (simp add: GetStorageHistory_def r)
next
  case False
  then show ?thesis by (simp add: GetStorageHistory_def loop_exit block_range_def)
qed

lemma GetStorageHistory_first_error:
  assumes "s \<le> k" and "k \<le> e"
    and "\<forall>j. s \<le> j \<and> j < k \<longrightarrow> block_error gs p a t j = None"
    and "block_error gs p a t k = Some err"
  shows "GetStorageHistory gs p a s e t = Some ((None, Some err), block_range s k)"
proof -
  let ?n = "unat (k - s)"
  have fits: "unat s + ?n \<le> 2 ^ 64" using range_fits [OF assms(1)] by simp
  have "unat s + ?n = unat k" using assms(1) by (simp add: unat_sub word_le_nat_alt)
  then have "set (blocks_from s ?n) = {j. s \<le> j \<and> j < k}"
    by (simp add: set_blocks_from [OF fits] word_le_nat_alt word_less_nat_alt)
  then have "\<forall>j \<in> set (blocks_from s ?n). j \<le> e \<and> block_error gs p a t j = None"
    using assms(2,3) by auto
  then have "GetStorageHistory_loop gs p a e t s [] [] =
      GetStorageHistory_loop gs p a e t (s + word_of_nat ?n)
        ([] @ concat (map (block_states gs p a t) (blocks_from s ?n))) ([] @ blocks_from s ?n)"
    by (rule loop_unroll)
  moreover have "s + word_of_nat ?n = k" by simp
  moreover have "block_range s k = blocks_from s ?n @ [k]"
    using assms(1) by (simp add: block_range_def blocks_from_snoc)
  ultimately show ?thesis
    using assms(2,4) by (simp add: GetStorageHistory_def loop_step_error)
qed

lemma loop_max_error_only:
  assumes "GetStorageHistory_loop gs p a e t i hs cs = Some r" and "e = - 1"
  shows "\<exists>j err cs'. r = ((None, Some err), cs') \<and> block_error gs p a t j = Some err"
proof -
  have "e = - 1 \<longrightarrow>
        (\<exists>j err cs'. r = ((None, Some err), cs') \<and> block_error gs p a t j = Some err)"
  proof (rule GetStorageHistory_loop.raw_induct
      [where P = "\<lambda>gs p a e t i hs cs r. e = - 1 \<longrightarrow>
          (\<exists>j err cs'. r = ((None, Some err), cs') \<and> block_error gs p a t j = Some err)",
       OF _ assms(1)])
    fix f gs p a t i hs cs r and e :: uint64
    assume IH: "\<And>gs p a e t i hs cs r. f gs p a e t i hs cs = Some r \<Longrightarrow> e = - 1 \<longrightarrow>
          (\<exists>j err cs'. r = ((None, Some err), cs') \<and> block_error gs p a t j = Some err)"
      and body: "(if i \<le> e then
        (case gs a i of (rawStorage, err) \<Rightarrow>
          (case err of
             Some e \<Rightarrow> Some ((None, Some e), cs @ [i])
           | None \<Rightarrow>
              (case rawStorage of
                 None \<Rightarrow> f gs p a e t (i + 1) hs (cs @ [i])
               | Some raw \<Rightarrow>
                   (case p raw t of (historicStorage, err) \<Rightarrow>
                     (case err of
                        Some e \<Rightarrow> Some ((None, Some e), cs @ [i])
                      | None \<Rightarrow>
                          f gs p a e t (i + 1)
                            (hs @ [\<lparr>BlockNumber = i, HistoricStorage = historicStorage\<rparr>])
                            (cs @ [i]))))))
      else Some ((Some \<lparr>Address = a, HistoricState = hs\<rparr>, None), cs)) = Some r"
    show "e = - 1 \<longrightarrow>
          (\<exists>j err cs'. r = ((None, Some err), cs') \<and> block_error gs p a t j = Some err)"
    proof
      assume e: "e = - 1"
      show "\<exists>j err cs'. r = ((None, Some err), cs') \<and> block_error gs p a t j = Some err"
      proof (cases "snd (gs a i)")
        case (Some err)
        then have "r = ((None, Some err), cs @ [i])" "block_error gs p a t i = Some err"
          using body e by (auto simp: block_error_def split: prod.splits)
        then show ?thesis by blast
      next
        case None
        show ?thesis
        proof (cases "block_error gs p a t i")
          case (Some err)
          then have "r = ((None, Some err), cs @ [i])"
            using body e None by (auto simp: block_error_def split: prod.splits option.splits)
          with Some show ?thesis by blast
        next
          case bn: None
          then obtain hs' where "f gs p a e t (i + 1) hs' (cs @ [i]) = Some r"
            using body e None by (auto simp: block_error_def split: prod.splits option.splits)
          from IH [OF this] e show ?thesis by blast
        qed
      qed
    qed
  qed
  with assms(2) show ?thesis by blast
qed

lemma GetStorageHistory_diverges:
  assumes "\<forall>j. block_error gs p a t j = None"
  shows "GetStorageHistory gs p a s (- 1) t = None"
proof (cases "GetStorageHistory gs p a s (- 1) t")
  case None
  then show ?thesis .
next
  case (Some r)
  then have "GetStorageHistory_loop gs p a (- 1) t s [] [] = Some r"
    by (simp add: GetStorageHistory_def)
  from loop_max_error_only [OF this] assms show ?thesis by auto
qed

lemma MaxUint64_eq: "MaxUint64 = - 1"
  by (simp add: MaxUint64_def)

subsection \<open>The first failing block\<close>

lemma first_error_exists:
  assumes "\<exists>j. s \<le> j \<and> j \<le> e \<and> block_error gs p a t j \<noteq> None"
  shows "\<exists>k err. s \<le> k \<and> k \<le> e \<and> (\<forall>j. s \<le> j \<and> j < k \<longrightarrow> block_error gs p a t j = None) \<and>
           block_error gs p a t k = Some err"
proof -
  define k where "k = (LEAST j. s \<le> j \<and> j \<le> e \<and> block_error gs p a t j \<noteq> None)"
  have k: "s \<le> k \<and> k \<le> e \<and> block_error gs p a t k \<noteq> None"
    unfolding k_def using assms by (rule LeastI_ex)
  have "block_error gs p a t j = None" if "s \<le> j" "j < k" for j
  proof -
    have "\<not> (s \<le> j \<and> j \<le> e \<and> block_error gs p a t j \<noteq> None)"
      using that(2) unfolding k_def by (rule not_less_Least)
    with that k show ?thesis by auto
  qed
  moreover obtain err where "block_error gs p a t k = Some err" using k by auto
  ultimately show ?thesis using k by blast
qed

lemma GetStorageHistory_success:
  assumes "GetStorageHistory gs p a s e t = Some ((Some resp, err), calls)"
  shows "e \<noteq> - 1" and "\<forall>j \<in> set (block_range s e). block_error gs p a t j = None"
proof -
  show e: "e \<noteq> - 1"
  proof
    assume "e = - 1"
    with assms loop_max_error_only [of gs p a e t s "[]" "[]" "((Some resp, err), calls)"]
    show False by (simp add: GetStorageHistory_def)
  qed
  show "\<forall>j \<in> set (block_range s e). block_error gs p a t j = None"
  proof (rule ccontr)
    assume "\<not> ?thesis"
    then have "\<exists>j. s \<le> j \<and> j \<le> e \<and> block_error gs p a t j \<noteq> None"
      by (auto simp: set_block_range)
    from first_error_exists [OF this] obtain k err' where
      "s \<le> k" "k \<le> e" "\<forall>j. s \<le> j \<and> j < k \<longrightarrow> block_error gs p a t j = None"
      "block_error gs p a t k = Some err'" by blast
    then have "GetStorageHistory gs p a s e t = Some ((None, Some err'), block_range s k)"
      by (rule GetStorageHistory_first_error)
    with assms show False by simp
  qed
qed

lemma BlockNumber_block_states:
  "map BlockNumber (concat (map (block_states gs p a t) xs)) = filter (\<lambda>j. fst (gs a j) \<noteq> None) xs"
  by (induction xs) (auto simp: block_states_def split: option.splits)

lemma GetStorageHistory_calls_bound:
  assumes "endBlockNumber \<noteq> - 1"
  shows "\<exists>r. GetStorageHistory gs p a startBlockNumber endBlockNumber t = Some r \<and>
             length (snd r) \<le> length (block_range startBlockNumber endBlockNumber)"
proof (cases "\<exists>j. startBlockNumber \<le> j \<and> j \<le> endBlockNumber \<and> block_error gs p a t j \<noteq> None")
  case True
  from first_error_exists [OF this] obtain k err where
    k: "startBlockNumber \<le> k" "k \<le> endBlockNumber"
       "\<forall>j. startBlockNumber \<le> j \<and> j < k \<longrightarrow> block_error gs p a t j = None"
       "block_error gs p a t k = Some err" by blast
  then have "GetStorageHistory gs p a startBlockNumber endBlockNumber t =
      Some ((None, Some err), block_range startBlockNumber k)"
    by (rule GetStorageHistory_first_error)
  moreover have "length (block_range startBlockNumber k) \<le>
      length (block_range startBlockNumber endBlockNumber)"
    using k(1,2) by (simp add: length_block_range word_le_nat_alt)
  ultimately show ?thesis by simp
next
  case False
  then have "\<forall>j \<in> set (block_range startBlockNumber endBlockNumber). block_error gs p a t j = None"
    by (auto simp: set_block_range)
  from GetStorageHistory_no_error [OF assms this] show ?thesis by simp
qed

subsection \<open>The scenarios, block by block\<close>

lemma block_error_sparse_fail:
  "block_error db_sparse parse_fail 0 () j = (if j = 11 then Some (Error ''decode failed'') else None)"
  by (simp add: block_error_def db_sparse_def parse_fail_def)

lemma block_error_sparse_id: "block_error db_sparse parse_id 0 () j = None"
  by (simp add: block_error_def db_sparse_def parse_id_def)

lemma block_range_10_11: "block_range 10 11 = [10, 11]"
  by (simp add: block_range_def blocks_from_def)

section \<open>The storage parsing helpers: lemmas\<close>

lemma byte_from_right_pad:
  "byte_from_right (replicate k 0 @ bs) p = byte_from_right bs p"
  by (auto simp: byte_from_right_def nth_append)

lemma Extract_pad:
  "ExtractFromSingleStorage offset n (replicate k 0 @ rawBytes) =
   ExtractFromSingleStorage offset n rawBytes"
  by (simp add: ExtractFromSingleStorage_def byte_from_right_pad)

lemma Extract_window:
  assumes "offset + n \<le> length rawBytes"
  shows "ExtractFromSingleStorage offset n rawBytes =
         take n (drop (length rawBytes - (offset + n)) rawBytes)"
proof (rule nth_equalityI)
  show "length (ExtractFromSingleStorage offset n rawBytes) =
        length (take n (drop (length rawBytes - (offset + n)) rawBytes))"
    using assms by (simp add: ExtractFromSingleStorage_def)
next
  fix i assume "i < length (ExtractFromSingleStorage offset n rawBytes)"
  then have i: "i < n" by (simp add: ExtractFromSingleStorage_def)
  let ?p = "offset + n - 1 - i"
  have p: "?p < length rawBytes" using assms i by simp
  have q: "length rawBytes - 1 - ?p = length rawBytes - (offset + n) + i"
    using assms i by simp
  have "ExtractFromSingleStorage offset n rawBytes ! i = byte_from_right rawBytes ?p"
    using i by (simp add: ExtractFromSingleStorage_def)
  also have "\<dots> = rawBytes ! (length rawBytes - 1 - ?p)"
    using p by (simp only: byte_from_right_def if_True)
  also have "\<dots> = rawBytes ! (length rawBytes - (offset + n) + i)"
    by (simp only: q)
  also have "\<dots> = take n (drop (length rawBytes - (offset + n)) rawBytes) ! i"
    using assms i by simp
  finally show "ExtractFromSingleStorage offset n rawBytes ! i =
        take n (drop (length rawBytes - (offset + n)) rawBytes) ! i" .
qed

section \<open>The slot hasher: evaluation\<close>

subsection \<open>The steps on explicit lanes and states\<close>

lemma xorL_unroll:
  "xorL [a0, a1, a2, a3, a4, a5, a6, a7, a8, a9, a10, a11, a12, a13, a14, a15,
     a16, a17, a18, a19, a20, a21, a22, a23, a24, a25, a26, a27, a28, a29, a30, a31,
     a32, a33, a34, a35, a36, a37, a38, a39, a40, a41, a42, a43, a44, a45, a46, a47,
     a48, a49, a50, a51, a52, a53, a54, a55, a56, a57, a58, a59, a60, a61, a62, a63]
        [b0, b1, b2, b3, b4, b5, b6, b7, b8, b9, b10, b11, b12, b13, b14, b15,
     b16, b17, b18, b19, b20, b21, b22, b23, b24, b25, b26, b27, b28, b29, b30, b31,
     b32, b33, b34, b35, b36, b37, b38, b39, b40, b41, b42, b43, b44, b45, b46, b47,
     b48, b49, b50, b51, b52, b53, b54, b55, b56, b57, b58, b59, b60, b61, b62, b63] =
   [a0 \<noteq> b0, a1 \<noteq> b1, a2 \<noteq> b2, a3 \<noteq> b3, a4 \<noteq> b4, a5 \<noteq> b5, a6 \<noteq> b6, a7 \<noteq> b7,
     a8 \<noteq> b8, a9 \<noteq> b9, a10 \<noteq> b10, a11 \<noteq> b11, a12 \<noteq> b12, a13 \<noteq> b13, a14 \<noteq> b14, a15 \<noteq> b15,
     a16 \<noteq> b16, a17 \<noteq> b17, a18 \<noteq> b18, a19 \<noteq> b19, a20 \<noteq> b20, a21 \<noteq> b21, a22 \<noteq> b22, a23 \<noteq> b23,
     a24 \<noteq> b24, a25 \<noteq> b25, a26 \<noteq> b26, a27 \<noteq> b27, a28 \<noteq> b28, a29 \<noteq> b29, a30 \<noteq> b30, a31 \<noteq> b31,
     a32 \<noteq> b32, a33 \<noteq> b33, a34 \<noteq> b34, a35 \<noteq> b35, a36 \<noteq> b36, a37 \<noteq> b37, a38 \<noteq> b38, a39 \<noteq> b39,
     a40 \<noteq> b40, a41 \<noteq> b41, a42 \<noteq> b42, a43 \<noteq> b43, a44 \<noteq> b44, a45 \<noteq> b45, a46 \<noteq> b46, a47 \<noteq> b47,
     a48 \<noteq> b48, a49 \<noteq> b49, a50 \<noteq> b50, a51 \<noteq> b51, a52 \<noteq> b52, a53 \<noteq> b53, a54 \<noteq> b54, a55 \<noteq> b55,
     a56 \<noteq> b56, a57 \<noteq> b57, a58 \<noteq> b58, a59 \<noteq> b59, a60 \<noteq> b60, a61 \<noteq> b61, a62 \<noteq> b62, a63 \<noteq> b63]"
  by (simp add: xorL_def)

lemma andnotL_unroll:
  "andnotL [a0, a1, a2, a3, a4, a5, a6, a7, a8, a9, a10, a11, a12, a13, a14, a15,
     a16, a17, a18, a19, a20, a21, a22, a23, a24, a25, a26, a27, a28, a29, a30, a31,
     a32, a33, a34, a35, a36, a37, a38, a39, a40, a41, a42, a43, a44, a45, a46, a47,
     a48, a49, a50, a51, a52, a53, a54, a55, a56, a57, a58, a59, a60, a61, a62, a63]
        [b0, b1, b2, b3, b4, b5, b6, b7, b8, b9, b10, b11, b12, b13, b14, b15,
     b16, b17, b18, b19, b20, b21, b22, b23, b24, b25, b26, b27, b28, b29, b30, b31,
     b32, b33, b34, b35, b36, b37, b38, b39, b40, b41, b42, b43, b44, b45, b46, b47,
     b48, b49, b50, b51, b52, b53, b54, b55, b56, b57, b58, b59, b60, b61, b62, b63] =
   [\<not> a0 \<and> b0, \<not> a1 \<and> b1, \<not> a2 \<and> b2, \<not> a3 \<and> b3, \<not> a4 \<and> b4, \<not> a5 \<and> b5, \<not> a6 \<and> b6, \<not> a7 \<and> b7,
     \<not> a8 \<and> b8, \<not> a9 \<and> b9, \<not> a10 \<and> b10, \<not> a11 \<and> b11, \<not> a12 \<and> b12, \<not> a13 \<and> b13, \<not> a14 \<and> b14, \<not> a15 \<and> b15,
     \<not> a16 \<and> b16, \<not> a17 \<and> b17, \<not> a18 \<and> b18, \<not> a19 \<and> b19, \<not> a20 \<and> b20, \<not> a21 \<and> b21, \<not> a22 \<and> b22, \<not> a23 \<and> b23,
     \<not> a24 \<and> b24, \<not> a25 \<and> b25, \<not> a26 \<and> b26, \<not> a27 \<and> b27, \<not> a28 \<and> b28, \<not> a29 \<and> b29, \<not> a30 \<and> b30, \<not> a31 \<and> b31,
     \<not> a32 \<and> b32, \<not> a33 \<and> b33, \<not> a34 \<and> b34, \<not> a35 \<and> b35, \<not> a36 \<and> b36, \<not> a37 \<and> b37, \<not> a38 \<and> b38, \<not> a39 \<and> b39,
     \<not> a40 \<and> b40, \<not> a41 \<and> b41, \<not> a42 \<and> b42, \<not> a43 \<and> b43, \<not> a44 \<and> b44, \<not> a45 \<and> b45, \<not> a46 \<and> b46, \<not> a47 \<and> b47,
     \<not> a48 \<and> b48, \<not> a49 \<and> b49, \<not> a50 \<and> b50, \<not> a51 \<and> b51, \<not> a52 \<and> b52, \<not> a53 \<and> b53, \<not> a54 \<and> b54, \<not> a55 \<and> b55,
     \<not> a56 \<and> b56, \<not> a57 \<and> b57, \<not> a58 \<and> b58, \<not> a59 \<and> b59, \<not> a60 \<and> b60, \<not> a61 \<and> b61, \<not> a62 \<and> b62, \<not> a63 \<and> b63]"
  by (simp add: andnotL_def)

lemma rot1_unroll:
  "rot1 [a0, a1, a2, a3, a4, a5, a6, a7, a8, a9, a10, a11, a12, a13, a14, a15,
     a16, a17, a18, a19, a20, a21, a22, a23, a24, a25, a26, a27, a28, a29, a30, a31,
     a32, a33, a34, a35, a36, a37, a38, a39, a40, a41, a42, a43, a44, a45, a46, a47,
     a48, a49, a50, a51, a52, a53, a54, a55, a56, a57, a58, a59, a60, a61, a62, a63] =
   [a63, a0, a1, a2, a3, a4, a5, a6, a7, a8, a9, a10, a11, a12, a13, a14,
     a15, a16, a17, a18, a19, a20, a21, a22, a23, a24, a25, a26, a27, a28, a29, a30,
     a31, a32, a33, a34, a35, a36, a37, a38, a39, a40, a41, a42, a43, a44, a45, a46,
     a47, a48, a49, a50, a51, a52, a53, a54, a55, a56, a57, a58, a59, a60, a61, a62]"
  by (simp add: rot1_def)

lemma rotL_numeral: "rotL (numeral k) a = rotL (pred_numeral k) (rot1 a)"
  using rotL.simps(2) [of "pred_numeral k" a] by (simp only: numeral_eq_Suc [symmetric])

lemma rotL_Suc0: "rotL (Suc 0) a = rot1 a"
  by simp

lemma rotL_1: "rotL 1 a = rot1 a"
  by simp

lemma theta_C_unroll:
  "theta_C [l0, l1, l2, l3, l4, l5, l6, l7, l8, l9, l10, l11, l12, l13, l14, l15,
     l16, l17, l18, l19, l20, l21, l22, l23, l24] =
   [xorL l0 (xorL l5 (xorL l10 (xorL l15 l20))),
     xorL l1 (xorL l6 (xorL l11 (xorL l16 l21))),
     xorL l2 (xorL l7 (xorL l12 (xorL l17 l22))),
     xorL l3 (xorL l8 (xorL l13 (xorL l18 l23))),
     xorL l4 (xorL l9 (xorL l14 (xorL l19 l24)))]"
  by (simp add: theta_C_def)

lemma theta_D_unroll:
  "theta_D [c0, c1, c2, c3, c4] =
   [xorL c4 (rotL 1 c1),
     xorL c0 (rotL 1 c2),
     xorL c1 (rotL 1 c3),
     xorL c2 (rotL 1 c4),
     xorL c3 (rotL 1 c0)]"
  by (simp add: theta_D_def)

lemma theta_apply_unroll:
  "theta_apply [l0, l1, l2, l3, l4, l5, l6, l7, l8, l9, l10, l11, l12, l13, l14, l15,
     l16, l17, l18, l19, l20, l21, l22, l23, l24] [d0, d1, d2, d3, d4] =
   [xorL l0 d0, xorL l1 d1, xorL l2 d2, xorL l3 d3, xorL l4 d4,
     xorL l5 d0, xorL l6 d1, xorL l7 d2, xorL l8 d3, xorL l9 d4,
     xorL l10 d0, xorL l11 d1, xorL l12 d2, xorL l13 d3, xorL l14 d4,
     xorL l15 d0, xorL l16 d1, xorL l17 d2, xorL l18 d3, xorL l19 d4,
     xorL l20 d0, xorL l21 d1, xorL l22 d2, xorL l23 d3, xorL l24 d4]"
  by (simp add: theta_apply_def upt_rec)

lemma rho_step_unroll:
  "rho_step [l0, l1, l2, l3, l4, l5, l6, l7, l8, l9, l10, l11, l12, l13, l14, l15,
     l16, l17, l18, l19, l20, l21, l22, l23, l24] =
   [rotL 0 l0, rotL 1 l1, rotL 62 l2, rotL 28 l3, rotL 27 l4,
     rotL 36 l5, rotL 44 l6, rotL 6 l7, rotL 55 l8, rotL 20 l9,
     rotL 3 l10, rotL 10 l11, rotL 43 l12, rotL 25 l13, rotL 39 l14,
     rotL 41 l15, rotL 45 l16, rotL 15 l17, rotL 21 l18, rotL 8 l19,
     rotL 18 l20, rotL 2 l21, rotL 61 l22, rotL 56 l23, rotL 14 l24]"
  by (simp add: rho_step_def rho_offsets_def)

lemma pi_step_unroll:
  "pi_step [l0, l1, l2, l3, l4, l5, l6, l7, l8, l9, l10, l11, l12, l13, l14, l15,
     l16, l17, l18, l19, l20, l21, l22, l23, l24] =
   [l0, l6, l12, l18, l24,
     l3, l9, l10, l16, l22,
     l1, l7, l13, l19, l20,
     l4, l5, l11, l17, l23,
     l2, l8, l14, l15, l21]"
  by (simp add: pi_step_def upt_rec)

lemma chi_step_unroll:
  "chi_step [l0, l1, l2, l3, l4, l5, l6, l7, l8, l9, l10, l11, l12, l13, l14, l15,
     l16, l17, l18, l19, l20, l21, l22, l23, l24] =
   [xorL l0 (andnotL l1 l2), xorL l1 (andnotL l2 l3),
     xorL l2 (andnotL l3 l4), xorL l3 (andnotL l4 l0),
     xorL l4 (andnotL l0 l1), xorL l5 (andnotL l6 l7),
     xorL l6 (andnotL l7 l8), xorL l7 (andnotL l8 l9),
     xorL l8 (andnotL l9 l5), xorL l9 (andnotL l5 l6),
     xorL l10 (andnotL l11 l12), xorL l11 (andnotL l12 l13),
     xorL l12 (andnotL l13 l14), xorL l13 (andnotL l14 l10),
     xorL l14 (andnotL l10 l11), xorL l15 (andnotL l16 l17),
     xorL l16 (andnotL l17 l18), xorL l17 (andnotL l18 l19),
     xorL l18 (andnotL l19 l15), xorL l19 (andnotL l15 l16),
     xorL l20 (andnotL l21 l22), xorL l21 (andnotL l22 l23),
     xorL l22 (andnotL l23 l24), xorL l23 (andnotL l24 l20),
     xorL l24 (andnotL l20 l21)]"
  by (simp add: chi_step_def upt_rec)

lemma iota_step_unroll:
  "iota_step rc (l # ls) = xorL l rc # ls"
  by (simp add: iota_step_def)

lemma bits_of_nat_numeral:
  "bits_of_nat (numeral k) n = odd n # bits_of_nat (pred_numeral k) (n div 2)"
  using bits_of_nat.simps(2) [of "pred_numeral k" n] by (simp only: numeral_eq_Suc [symmetric])

lemma encode_be_numeral:
  "encode_be (numeral k) n = encode_be (pred_numeral k) (n div 256) @ [word_of_nat (n mod 256)]"
  using encode_be.simps(2) [of "pred_numeral k" n] by (simp only: numeral_eq_Suc [symmetric])

lemma replicate_numeral:
  "replicate (numeral k) x = x # replicate (pred_numeral k) x"
  using replicate.simps(2) [of "pred_numeral k" x] by (simp only: numeral_eq_Suc [symmetric])

lemmas keccak_eval =
  keccak_rounds.simps keccak_round_def theta_step_def theta_C_unroll theta_D_unroll
  theta_apply_unroll rho_step_unroll pi_step_unroll chi_step_unroll iota_step_unroll
  xorL_unroll andnotL_unroll rot1_unroll rotL_numeral rotL_1 rotL_Suc0 rotL.simps(1)
  pred_numeral_simps BitM.simps simp_thms

subsection \<open>The two vectors, stage by stage\<close>

lemma blocks_zero:
  "map lanes_of_block (blocks_of (pad10star1 (encode32 0))) =
     [map (bits_of_nat 64)
       [0x0000000000000000, 0x0000000000000000, 0x0000000000000000, 0x0000000000000000,
        0x0000000000000001, 0x0000000000000000, 0x0000000000000000, 0x0000000000000000,
        0x0000000000000000, 0x0000000000000000, 0x0000000000000000, 0x0000000000000000,
        0x0000000000000000, 0x0000000000000000, 0x0000000000000000, 0x0000000000000000,
        0x8000000000000000]]"
  by (simp add: encode32_def encode_be_numeral pad10star1_def blocks_of_def lanes_of_block_def
      bits_of_byte_def bits_of_nat_numeral replicate_numeral upt_rec)

lemma absorb_zero:
  "absorb (replicate 25 (replicate 64 False))
     (map (bits_of_nat 64)
       [0x0000000000000000, 0x0000000000000000, 0x0000000000000000, 0x0000000000000000,
        0x0000000000000001, 0x0000000000000000, 0x0000000000000000, 0x0000000000000000,
        0x0000000000000000, 0x0000000000000000, 0x0000000000000000, 0x0000000000000000,
        0x0000000000000000, 0x0000000000000000, 0x0000000000000000, 0x0000000000000000,
        0x8000000000000000]) =
   map (bits_of_nat 64)
     [0xA8628B54D9EC0D29, 0xC86F3888A94503D6, 0xF608404895BCA64B, 0x63E5F30E16932F36,
      0xDC2019E6746CB250, 0x013BB9EFD5CF03E8, 0x565A852AE1CB8779, 0x662DA9A00C2AEC51,
      0x14464F58DC029732, 0x1A05392CD2B0D9C5, 0x0F63CC448D3A5F12, 0x1E1A9B5FC83CB68F,
      0x1160E19395B4DB94, 0x74B8A845D62D714B, 0x1160D61D30B9ED75, 0x7FC1B88D9A276F2E,
      0x3D9CF5E7821E772C, 0x825675E9A99A09FE, 0x4C99BB08FD8AAFD0, 0xBF282B042DB96BC2,
      0x963D7F409CEA39A4, 0x526FFF8C9AB269B5, 0x1EB13ECC56C1ABC9, 0xDD1EF1FCF2DA107B,
      0xF9C9B482A9F3F75B]"
  unfolding absorb_def
  apply (simp add: keccak_f_def round_constants_def bits_of_nat_numeral replicate_numeral
      xorL_unroll)
  apply (simp only: keccak_eval)
  done

lemma digest_zero:
  "concat (map bytes_of_lane (take 4 (map (bits_of_nat 64)
     [0xA8628B54D9EC0D29, 0xC86F3888A94503D6, 0xF608404895BCA64B, 0x63E5F30E16932F36,
      0xDC2019E6746CB250, 0x013BB9EFD5CF03E8, 0x565A852AE1CB8779, 0x662DA9A00C2AEC51,
      0x14464F58DC029732, 0x1A05392CD2B0D9C5, 0x0F63CC448D3A5F12, 0x1E1A9B5FC83CB68F,
      0x1160E19395B4DB94, 0x74B8A845D62D714B, 0x1160D61D30B9ED75, 0x7FC1B88D9A276F2E,
      0x3D9CF5E7821E772C, 0x825675E9A99A09FE, 0x4C99BB08FD8AAFD0, 0xBF282B042DB96BC2,
      0x963D7F409CEA39A4, 0x526FFF8C9AB269B5, 0x1EB13ECC56C1ABC9, 0xDD1EF1FCF2DA107B,
      0xF9C9B482A9F3F75B]))) =
   [0x29, 0x0d, 0xec, 0xd9, 0x54, 0x8b, 0x62, 0xa8, 0xd6, 0x03, 0x45, 0xa9, 0x88, 0x38, 0x6f, 0xc8,
    0x4b, 0xa6, 0xbc, 0x95, 0x48, 0x40, 0x08, 0xf6, 0x36, 0x2f, 0x93, 0x16, 0x0e, 0xf3, 0xe5, 0x63]"
  by (simp add: bits_of_nat_numeral bytes_of_lane_def byte_of_bits_def upt_rec)

lemma hash_zero:
  "hash (encode32 0) =
   [0x29, 0x0d, 0xec, 0xd9, 0x54, 0x8b, 0x62, 0xa8, 0xd6, 0x03, 0x45, 0xa9, 0x88, 0x38, 0x6f, 0xc8,
    0x4b, 0xa6, 0xbc, 0x95, 0x48, 0x40, 0x08, 0xf6, 0x36, 0x2f, 0x93, 0x16, 0x0e, 0xf3, 0xe5, 0x63]"
  by (simp only: hash_def keccak256_def blocks_zero foldl.simps absorb_zero digest_zero)

lemma be_nat_zero:
  "be_nat [0x29, 0x0d, 0xec, 0xd9, 0x54, 0x8b, 0x62, 0xa8, 0xd6, 0x03, 0x45, 0xa9, 0x88, 0x38, 0x6f, 0xc8,
    0x4b, 0xa6, 0xbc, 0x95, 0x48, 0x40, 0x08, 0xf6, 0x36, 0x2f, 0x93, 0x16, 0x0e, 0xf3, 0xe5, 0x63] =
   0x290decd9548b62a8d60345a988386fc84ba6bc95484008f6362f93160ef3e563"
  by (simp add: be_nat_def)

lemma blocks_large:
  "map lanes_of_block (blocks_of (pad10star1 (encode32 0xdf6966c971051c3d54ec59162606531493a51404a002842f56009d7e5cf4a8ca))) =
     [map (bits_of_nat 64)
       [0x3D1C0571C96669DF, 0x145306261659EC54, 0x2F8402A00414A593, 0xCAA8F45C7E9D0056,
        0x0000000000000001, 0x0000000000000000, 0x0000000000000000, 0x0000000000000000,
        0x0000000000000000, 0x0000000000000000, 0x0000000000000000, 0x0000000000000000,
        0x0000000000000000, 0x0000000000000000, 0x0000000000000000, 0x0000000000000000,
        0x8000000000000000]]"
  by (simp add: encode32_def encode_be_numeral pad10star1_def blocks_of_def lanes_of_block_def
      bits_of_byte_def bits_of_nat_numeral replicate_numeral upt_rec)

lemma absorb_large:
  "absorb (replicate 25 (replicate 64 False))
     (map (bits_of_nat 64)
       [0x3D1C0571C96669DF, 0x145306261659EC54, 0x2F8402A00414A593, 0xCAA8F45C7E9D0056,
        0x0000000000000001, 0x0000000000000000, 0x0000000000000000, 0x0000000000000000,
        0x0000000000000000, 0x0000000000000000, 0x0000000000000000, 0x0000000000000000,
        0x0000000000000000, 0x0000000000000000, 0x0000000000000000, 0x0000000000000000,
        0x8000000000000000]) =
   map (bits_of_nat 64)
     [0x23688767464DC6AF, 0x7571AA0D51F2D3FB, 0x38F114A0DD32BB2D, 0x5A4B442B72187258,
      0x46A4F5204B4F8061, 0x952902AF4B64457D, 0x80F6176A7FC54F3A, 0xB8B5403D4F9CAE83,
      0x3C3B80DB899F245B, 0xAA05AE2CD246EEF1, 0x47211EA9119CA694, 0xD618E4506036B85B,
      0x72E224016D61DF98, 0xE07A0FA7E48AC211, 0x5D986B784F2BE300, 0x9492BE3D9522DB13,
      0x1BF77F800835C09A, 0x81863D88828AA317, 0x04791374175E3325, 0xE15F64EF5CBDBC45,
      0x705577C58F975779, 0xB79B7A3A8A4EF1BC, 0xD1011D04B48F9141, 0x2BB48BB8F28C0E9C,
      0x61FC30FC29152C02]"
  unfolding absorb_def
  apply (simp add: keccak_f_def round_constants_def bits_of_nat_numeral replicate_numeral
      xorL_unroll)
  apply (simp only: keccak_eval)
  done

lemma digest_large:
  "concat (map bytes_of_lane (take 4 (map (bits_of_nat 64)
     [0x23688767464DC6AF, 0x7571AA0D51F2D3FB, 0x38F114A0DD32BB2D, 0x5A4B442B72187258,
      0x46A4F5204B4F8061, 0x952902AF4B64457D, 0x80F6176A7FC54F3A, 0xB8B5403D4F9CAE83,
      0x3C3B80DB899F245B, 0xAA05AE2CD246EEF1, 0x47211EA9119CA694, 0xD618E4506036B85B,
      0x72E224016D61DF98, 0xE07A0FA7E48AC211, 0x5D986B784F2BE300, 0x9492BE3D9522DB13,
      0x1BF77F800835C09A, 0x81863D88828AA317, 0x04791374175E3325, 0xE15F64EF5CBDBC45,
      0x705577C58F975779, 0xB79B7A3A8A4EF1BC, 0xD1011D04B48F9141, 0x2BB48BB8F28C0E9C,
      0x61FC30FC29152C02]))) =
   [0xaf, 0xc6, 0x4d, 0x46, 0x67, 0x87, 0x68, 0x23, 0xfb, 0xd3, 0xf2, 0x51, 0x0d, 0xaa, 0x71, 0x75,
    0x2d, 0xbb, 0x32, 0xdd, 0xa0, 0x14, 0xf1, 0x38, 0x58, 0x72, 0x18, 0x72, 0x2b, 0x44, 0x4b, 0x5a]"
  by (simp add: bits_of_nat_numeral bytes_of_lane_def byte_of_bits_def upt_rec)

lemma hash_large:
  "hash (encode32 0xdf6966c971051c3d54ec59162606531493a51404a002842f56009d7e5cf4a8ca) =
   [0xaf, 0xc6, 0x4d, 0x46, 0x67, 0x87, 0x68, 0x23, 0xfb, 0xd3, 0xf2, 0x51, 0x0d, 0xaa, 0x71, 0x75,
    0x2d, 0xbb, 0x32, 0xdd, 0xa0, 0x14, 0xf1, 0x38, 0x58, 0x72, 0x18, 0x72, 0x2b, 0x44, 0x4b, 0x5a]"
  by (simp only: hash_def keccak256_def blocks_large foldl.simps absorb_large digest_large)

lemma be_nat_large:
  "be_nat [0xaf, 0xc6, 0x4d, 0x46, 0x67, 0x87, 0x68, 0x23, 0xfb, 0xd3, 0xf2, 0x51, 0x0d, 0xaa, 0x71, 0x75,
    0x2d, 0xbb, 0x32, 0xdd, 0xa0, 0x14, 0xf1, 0x38, 0x58, 0x72, 0x18, 0x72, 0x2b, 0x44, 0x4b, 0x5a] =
   0xafc64d4667876823fbd3f2510daa71752dbb32dda014f138587218722b444b5a"
  by (simp add: be_nat_def)

section \<open>The claims\<close>

text \<open>
  Claim C1, as the code has it.  When the first fetch or decode error occurs at block
  \<open>k\<close> of the range, GetStorageHistory fetches the blocks from the start block up to
  \<open>k\<close> and no later block, and returns that error with a nil response: the snapshots
  accumulated for the blocks before \<open>k\<close> are not returned.
\<close>

theorem GetStorageHistory_error_aborts:
  assumes "startBlockNumber \<le> k" and "k \<le> endBlockNumber"
    and "\<forall>j. startBlockNumber \<le> j \<and> j < k \<longrightarrow>
           block_error getStorage parseRawStorage address template j = None"
    and "block_error getStorage parseRawStorage address template k = Some err"
  shows "GetStorageHistory getStorage parseRawStorage address startBlockNumber endBlockNumber
           template = Some ((None, Some err), block_range startBlockNumber k) \<and>
         set (block_range startBlockNumber k) = {j. startBlockNumber \<le> j \<and> j \<le> k}"
  using GetStorageHistory_first_error [OF assms] set_block_range by simp

theorem GetStorageHistory_error_aborts_witness:
  "GetStorageHistory db_sparse parse_fail 0 10 12 () =
     Some ((None, Some (Error ''decode failed'')), [10, 11])"
proof -
  have "\<forall>j::uint64. 10 \<le> j \<and> j < 11 \<longrightarrow> block_error db_sparse parse_fail 0 () j = None"
    by (simp add: block_error_sparse_fail)
  moreover have "block_error db_sparse parse_fail 0 () 11 = Some (Error ''decode failed'')"
    by (simp add: block_error_sparse_fail)
  ultimately show ?thesis
    using GetStorageHistory_error_aborts [of 10 11 12 db_sparse parse_fail 0 "()" "Error ''decode failed''"]
    by (simp add: block_range_10_11)
qed

text \<open>
  Claim C1 as stated fails: over the blocks 1 to 3, with a one-entry storage at block 1
  and a fetch error at block 2, the call returns the error with a nil response, not with
  a response that holds the snapshot of block 1.
\<close>

theorem GetStorageHistory_error_counterexample:
  "GetStorageHistory db_fail_second parse_id 0 1 3 () =
     Some ((None, Some (Error ''no record found'')), [1, 2]) \<and>
   GetStorageHistory db_fail_second parse_id 0 1 3 () \<noteq>
     Some ((Some \<lparr>Address = 0,
              HistoricState = [\<lparr>BlockNumber = 1, HistoricStorage = storage_one\<rparr>]\<rparr>,
            Some (Error ''no record found'')), [1, 2])"
  by (simp add: GetStorageHistory_def GetStorageHistory_loop.simps db_fail_second_def parse_id_def)

text \<open>
  Claim C2, as the code has it.  A response returned by GetStorageHistory holds exactly
  one state per block of the range whose fetched raw storage is not nil, none for a block
  whose storage is nil, in strictly increasing order of block number; the range
  is the set of the blocks between the start block and the end block, and the error
  returned with a response is nil.
\<close>

theorem GetStorageHistory_sparse_snapshots:
  assumes "GetStorageHistory getStorage parseRawStorage address startBlockNumber endBlockNumber
             template = Some ((Some resp, err), calls)"
  shows "map BlockNumber (HistoricState resp) =
           filter (\<lambda>j. fst (getStorage address j) \<noteq> None) (block_range startBlockNumber endBlockNumber) \<and>
         sorted_wrt (<) (map BlockNumber (HistoricState resp)) \<and>
         set (block_range startBlockNumber endBlockNumber) =
           {j. startBlockNumber \<le> j \<and> j \<le> endBlockNumber} \<and>
         err = None"
proof -
  from GetStorageHistory_no_error [OF GetStorageHistory_success [OF assms]] assms
  have resp: "resp = \<lparr>Address = address,
      HistoricState = concat (map (block_states getStorage parseRawStorage address template)
        (block_range startBlockNumber endBlockNumber))\<rparr>" and err: "err = None"
    by simp_all
  have m: "map BlockNumber (HistoricState resp) =
      filter (\<lambda>j. fst (getStorage address j) \<noteq> None) (block_range startBlockNumber endBlockNumber)"
    by (simp add: resp BlockNumber_block_states)
  moreover have "sorted_wrt (<) (map BlockNumber (HistoricState resp))"
    unfolding m by (rule sorted_wrt_filter) (rule sorted_block_range)
  ultimately show ?thesis using err set_block_range by simp
qed

text \<open>
  The scenario of the spec: nil storage at the blocks 10 and 12, a storage with an entry
  at block 11; the history of the blocks 10 to 12 is the one state of block 11.
\<close>

theorem GetStorageHistory_sparse_snapshots_witness:
  "GetStorageHistory db_sparse parse_id 0 10 12 () =
     Some ((Some \<lparr>Address = 0,
              HistoricState = [\<lparr>BlockNumber = 11, HistoricStorage = storage_one\<rparr>]\<rparr>, None),
           [10, 11, 12]) \<and>
   map BlockNumber [\<lparr>BlockNumber = 11, HistoricStorage = storage_one\<rparr>] =
     filter (\<lambda>j. fst (db_sparse 0 j) \<noteq> None) (block_range 10 12)"
proof -
  have r: "GetStorageHistory db_sparse parse_id 0 10 12 () =
     Some ((Some \<lparr>Address = 0,
              HistoricState = [\<lparr>BlockNumber = 11, HistoricStorage = storage_one\<rparr>]\<rparr>, None),
           [10, 11, 12])"
    by (simp add: GetStorageHistory_def GetStorageHistory_loop.simps db_sparse_def parse_id_def)
  from GetStorageHistory_sparse_snapshots [OF r] r show ?thesis by simp
qed

text \<open>
  Claim C2 as stated fails: a storage that is a map without entries, but not nil, is
  empty, and yet the block gets a state in the response.
\<close>

theorem GetStorageHistory_empty_map_counterexample:
  "fst (db_empty_maps 0 10) = Some Mapping.empty \<and>
   GetStorageHistory db_empty_maps parse_id 0 10 10 () =
     Some ((Some \<lparr>Address = 0,
              HistoricState = [\<lparr>BlockNumber = 10, HistoricStorage = Mapping.empty\<rparr>]\<rparr>, None),
           [10])"
  by (simp add: GetStorageHistory_def GetStorageHistory_loop.simps db_empty_maps_def parse_id_def)

text \<open>
  Claim C3.  When the start block is greater than the end block, GetStorageHistory
  returns a response with an empty list of states, a nil error, and calls
  \<^verbatim>\<open>GetStorage\<close> not once.
\<close>

theorem GetStorageHistory_empty_range:
  "endBlockNumber < startBlockNumber \<Longrightarrow>
   GetStorageHistory getStorage parseRawStorage address startBlockNumber endBlockNumber template =
     Some ((Some \<lparr>Address = address, HistoricState = []\<rparr>, None), [])"
  by (simp add: GetStorageHistory_def loop_exit)

theorem GetStorageHistory_empty_range_witness:
  "(3::uint64) < 5 \<and>
   GetStorageHistory db_sparse parse_id 0 5 3 () =
     Some ((Some \<lparr>Address = 0, HistoricState = []\<rparr>, None), [])"
  using GetStorageHistory_empty_range [of 3 5 db_sparse parse_id 0 "()"] by simp

text \<open>
  Claim C4, as the tests have it.  The hash of the 32 zero bytes is
  \<open>0x290decd9548b62a8d60345a988386fc84ba6bc95484008f6362f93160ef3e563\<close>, a value of 64
  hexadecimal digits that ends in \<open>e563\<close>, and the hash of the 32 bytes of
  \<open>0xdf6966c971051c3d54ec59162606531493a51404a002842f56009d7e5cf4a8ca\<close> is
  \<open>0xafc64d4667876823fbd3f2510daa71752dbb32dda014f138587218722b444b5a\<close>.
\<close>

theorem hash_vectors:
  "be_nat (hash (encode32 0)) =
     0x290decd9548b62a8d60345a988386fc84ba6bc95484008f6362f93160ef3e563 \<and>
   be_nat (hash (encode32 0xdf6966c971051c3d54ec59162606531493a51404a002842f56009d7e5cf4a8ca)) =
     0xafc64d4667876823fbd3f2510daa71752dbb32dda014f138587218722b444b5a"
  by (simp only: hash_zero hash_large be_nat_zero be_nat_large simp_thms)

text \<open>
  Claim C4 as stated fails: its first value has 63 hexadecimal digits, the digit 3 at the
  end of the hash is missing, and the hash of the 32 zero bytes is not that number.
\<close>

theorem hash_zero_counterexample:
  "be_nat (hash (encode32 0)) \<noteq>
     0x290decd9548b62a8d60345a988386fc84ba6bc95484008f6362f93160ef3e56"
  by (simp add: hash_zero be_nat_zero)

text \<open>
  Claim C5.  For every natural number \<open>n\<close>, \<open>roundUpTo32 n\<close> is a multiple of 32, at
  least \<open>n\<close>, less than \<open>n + 32\<close>, and the least multiple of 32 that is at least \<open>n\<close>;
  it maps 0 to 0, 1 to 32, 32 to 32 and 33 to 64.
\<close>

theorem roundUpTo32_least_multiple:
  "32 dvd roundUpTo32 n \<and> n \<le> roundUpTo32 n \<and> roundUpTo32 n < n + 32 \<and>
   (\<forall>m. 32 dvd m \<and> n \<le> m \<longrightarrow> roundUpTo32 n \<le> m) \<and>
   roundUpTo32 0 = 0 \<and> roundUpTo32 1 = 32 \<and> roundUpTo32 32 = 32 \<and> roundUpTo32 33 = 64"
proof -
  have d: "32 dvd roundUpTo32 n" by (simp add: roundUpTo32_def)
  have b: "n \<le> roundUpTo32 n" "roundUpTo32 n < n + 32"
    unfolding roundUpTo32_def by arith+
  have l: "roundUpTo32 n \<le> m" if "32 dvd m \<and> n \<le> m" for m
  proof -
    from that obtain k where "m = 32 * k" by auto
    with that show ?thesis by (simp add: roundUpTo32_def)
  qed
  have v: "roundUpTo32 0 = 0" "roundUpTo32 1 = 32" "roundUpTo32 32 = 32" "roundUpTo32 33 = 64"
    by (simp_all add: roundUpTo32_def)
  from d b l v show ?thesis by blast
qed

theorem roundUpTo32_least_multiple_witness:
  "roundUpTo32 33 \<le> 96 \<and> roundUpTo32 33 = 64"
  using roundUpTo32_least_multiple [of 33] by simp

text \<open>
  Claim C6.  The two vectors of the extraction: 10 bytes at offset 0 and 10 bytes at
  offset 5 of the two 32-byte words give the bytes \<open>00 00 00 00 00 10 23 45 67 89\<close>.
\<close>

theorem ExtractFromSingleStorage_vectors:
  "ExtractFromSingleStorage 0 10
     [0, 0, 0, 0, 0, 0, 0, 0, 0, 0, 0, 0, 0, 0, 0, 0, 0, 0, 0, 0, 0, 0, 0, 0, 0, 0, 0,
      0x10, 0x23, 0x45, 0x67, 0x89] =
     [0, 0, 0, 0, 0, 0x10, 0x23, 0x45, 0x67, 0x89] \<and>
   ExtractFromSingleStorage 5 10
     [0, 0, 0, 0, 0, 0, 0, 0, 0, 0, 0, 0, 0, 0, 0, 0, 0, 0, 0, 0, 0, 0,
      0x10, 0x23, 0x45, 0x67, 0x89, 0, 0, 0, 0, 0] =
     [0, 0, 0, 0, 0, 0x10, 0x23, 0x45, 0x67, 0x89]"
  by code_simp

text \<open>
  Claim C7.  While the window of \<open>n\<close> bytes at \<open>offset\<close> bytes from the right-hand end
  lies within the input, the extraction returns exactly that window, and bytes put before
  the input on the left-hand side, zero or not, do not change the result.
\<close>

theorem ExtractFromSingleStorage_window_only:
  assumes "offset + n \<le> length rawBytes"
  shows "ExtractFromSingleStorage offset n rawBytes =
           take n (drop (length rawBytes - (offset + n)) rawBytes) \<and>
         ExtractFromSingleStorage offset n (replicate k 0 @ rawBytes) =
           ExtractFromSingleStorage offset n rawBytes \<and>
         ExtractFromSingleStorage offset n (other @ rawBytes) =
           ExtractFromSingleStorage offset n rawBytes"
proof -
  have "ExtractFromSingleStorage offset n (other @ rawBytes) =
          take n (drop (length (other @ rawBytes) - (offset + n)) (other @ rawBytes))"
    using assms by (intro Extract_window) simp
  also have "\<dots> = take n (drop (length rawBytes - (offset + n)) rawBytes)"
    using assms by simp
  finally show ?thesis using Extract_window [OF assms] Extract_pad by simp
qed

theorem ExtractFromSingleStorage_window_only_witness:
  "ExtractFromSingleStorage 1 2 [0, 0, 0, 0xAA, 0xBB, 0xCC, 0xDD] = [0xBB, 0xCC] \<and>
   ExtractFromSingleStorage 1 2 [0xAA, 0xBB, 0xCC, 0xDD] = [0xBB, 0xCC] \<and>
   ExtractFromSingleStorage 1 2 [0x11, 0x22, 0xAA, 0xBB, 0xCC, 0xDD] = [0xBB, 0xCC]"
proof -
  have r: "replicate 3 (0::8 word) = [0, 0, 0]" by (simp add: numeral_3_eq_3)
  have t: "take 2 (drop (4 - 3) [0xAA, 0xBB, 0xCC, 0xDD::8 word]) = [0xBB, 0xCC]"
    by (simp add: numeral_2_eq_2)
  show ?thesis
    using ExtractFromSingleStorage_window_only [of 1 2 "[0xAA, 0xBB, 0xCC, 0xDD]" 3 "[0x11, 0x22]"]
    by (simp add: r t)
qed

text \<open>
  Claim C8, as the code has it.  When the end block is less than the maximum of uint64,
  GetStorageHistory returns for every database and decoder, after at most
  \<open>endBlockNumber - startBlockNumber + 1\<close> iterations (none when the start block is
  greater than the end block), and after exactly that many when no block of the range
  meets a fetch or decode error.  Every block number is at most the maximum of uint64, so
  with that end block the loop condition never fails, and the call does not return when
  no block meets an error.
\<close>

theorem GetStorageHistory_termination:
  "(endBlockNumber < MaxUint64 \<longrightarrow>
      (\<exists>r. GetStorageHistory getStorage parseRawStorage address startBlockNumber endBlockNumber
              template = Some r \<and>
            length (snd r) \<le> (if startBlockNumber \<le> endBlockNumber
                               then unat endBlockNumber - unat startBlockNumber + 1 else 0) \<and>
            ((\<forall>j. startBlockNumber \<le> j \<and> j \<le> endBlockNumber \<longrightarrow>
                 block_error getStorage parseRawStorage address template j = None) \<longrightarrow>
             length (snd r) = (if startBlockNumber \<le> endBlockNumber
                               then unat endBlockNumber - unat startBlockNumber + 1 else 0)))) \<and>
   (\<forall>i. i \<le> MaxUint64) \<and>
   ((\<forall>j. block_error getStorage parseRawStorage address template j = None) \<longrightarrow>
      GetStorageHistory getStorage parseRawStorage address startBlockNumber MaxUint64 template = None)"
proof (intro conjI impI)
  assume "endBlockNumber < MaxUint64"
  then have e: "endBlockNumber \<noteq> - 1" by (auto simp: MaxUint64_eq)
  have "\<exists>r. GetStorageHistory getStorage parseRawStorage address startBlockNumber
          endBlockNumber template = Some r \<and>
        length (snd r) \<le> length (block_range startBlockNumber endBlockNumber)"
    using e by (rule GetStorageHistory_calls_bound)
  then obtain r where
    r: "GetStorageHistory getStorage parseRawStorage address startBlockNumber endBlockNumber
          template = Some r"
       "length (snd r) \<le> length (block_range startBlockNumber endBlockNumber)"
    by blast
  have "length (snd r) = length (block_range startBlockNumber endBlockNumber)"
    if "\<forall>j. startBlockNumber \<le> j \<and> j \<le> endBlockNumber \<longrightarrow>
                 block_error getStorage parseRawStorage address template j = None"
  proof -
    from that have "\<forall>j \<in> set (block_range startBlockNumber endBlockNumber).
        block_error getStorage parseRawStorage address template j = None"
      by (simp add: set_block_range)
    from GetStorageHistory_no_error [OF e this] r(1) show ?thesis by simp
  qed
  with r show "\<exists>r. GetStorageHistory getStorage parseRawStorage address startBlockNumber endBlockNumber
              template = Some r \<and>
            length (snd r) \<le> (if startBlockNumber \<le> endBlockNumber
                               then unat endBlockNumber - unat startBlockNumber + 1 else 0) \<and>
            ((\<forall>j. startBlockNumber \<le> j \<and> j \<le> endBlockNumber \<longrightarrow>
                 block_error getStorage parseRawStorage address template j = None) \<longrightarrow>
             length (snd r) = (if startBlockNumber \<le> endBlockNumber
                               then unat endBlockNumber - unat startBlockNumber + 1 else 0))"
    unfolding length_block_range by blast
next
  show "\<forall>i. i \<le> MaxUint64" by (simp add: MaxUint64_eq)
next
  assume "\<forall>j. block_error getStorage parseRawStorage address template j = None"
  then show "GetStorageHistory getStorage parseRawStorage address startBlockNumber MaxUint64 template = None"
    unfolding MaxUint64_eq by (rule GetStorageHistory_diverges)
qed

theorem GetStorageHistory_termination_witness:
  "(12::uint64) < MaxUint64 \<and>
   (\<exists>r. GetStorageHistory db_sparse parse_id 0 10 12 () = Some r \<and> length (snd r) = 3) \<and>
   GetStorageHistory db_sparse parse_id 0 10 MaxUint64 () = None"
proof -
  have lt: "(12::uint64) < MaxUint64" by (simp add: MaxUint64_def)
  have ne: "\<forall>j. block_error db_sparse parse_id 0 () j = None"
    by (simp add: block_error_sparse_id)
  from GetStorageHistory_termination [of 12 db_sparse parse_id 0 10 "()"] lt ne
  show ?thesis by auto
qed

text \<open>
  Claim C8 as stated fails: the end block 3 is less than the maximum, the fetch fails at
  block 1, and the loop makes one iteration, not the three of the range from 1 to 3.
\<close>

theorem GetStorageHistory_iterations_counterexample:
  "(3::uint64) < MaxUint64 \<and>
   GetStorageHistory db_unregistered parse_id 0 1 3 () =
     Some ((None, Some (Error ''address is not registered'')), [1]) \<and>
   length [1::uint64] \<noteq> unat (3::uint64) - unat (1::uint64) + 1"
  by (simp add: GetStorageHistory_def GetStorageHistory_loop.simps db_unregistered_def MaxUint64_def)

text \<open>
  Claim C9.  Called with a nil options pointer, each of the three query operations
  queries the database with \<open>SetDefaults\<close> of the empty options, exactly as it does for
  a pointer to the empty options, and no options value makes an operation dereference nil.
  For the events the result is spelled out: the events that the database gives for
  \<open>SetDefaults\<close> of the options, parsed with the ABI of the contract, or the first error.
\<close>

theorem query_options_nil_total:
  "GetAllTransactionsToAddress SetDefaults emptyOptions dbTx address None =
     Some (dbTx address (SetDefaults emptyOptions)) \<and>
   GetAllTransactionsToAddress SetDefaults emptyOptions dbTx address None =
     GetAllTransactionsToAddress SetDefaults emptyOptions dbTx address (Some emptyOptions) \<and>
   GetAllTransactionsToAddress SetDefaults emptyOptions dbTx address options \<noteq> None \<and>
   GetAllTransactionsToAddress SetDefaults emptyOptions dbTx address (Some opts) =
     Some (dbTx address (SetDefaults opts)) \<and>
   GetAllTransactionsInternalToAddress SetDefaults emptyOptions dbItx address None =
     Some (dbItx address (SetDefaults emptyOptions)) \<and>
   GetAllTransactionsInternalToAddress SetDefaults emptyOptions dbItx address None =
     GetAllTransactionsInternalToAddress SetDefaults emptyOptions dbItx address (Some emptyOptions) \<and>
   GetAllTransactionsInternalToAddress SetDefaults emptyOptions dbItx address options \<noteq> None \<and>
   GetAllTransactionsInternalToAddress SetDefaults emptyOptions dbItx address (Some opts) =
     Some (dbItx address (SetDefaults opts)) \<and>
   GetAllEventsFromAddress SetDefaults emptyOptions dbEv dbABI newParsedEvent ParseEvent address None =
     Some (case dbEv address (SetDefaults emptyOptions) of (events, err) \<Rightarrow>
       (case err of
          Some er \<Rightarrow> (None, Some er)
        | None \<Rightarrow>
           (case dbABI address of (contractABI, err) \<Rightarrow>
             (case err of
                Some er \<Rightarrow> (None, Some er)
              | None \<Rightarrow> parseEvents newParsedEvent ParseEvent contractABI events [])))) \<and>
   GetAllEventsFromAddress SetDefaults emptyOptions dbEv dbABI newParsedEvent ParseEvent address None =
     GetAllEventsFromAddress SetDefaults emptyOptions dbEv dbABI newParsedEvent ParseEvent address
       (Some emptyOptions) \<and>
   GetAllEventsFromAddress SetDefaults emptyOptions dbEv dbABI newParsedEvent ParseEvent address
     options \<noteq> None \<and>
   GetAllEventsFromAddress SetDefaults emptyOptions dbEv dbABI newParsedEvent ParseEvent address
       (Some opts) =
     Some (case dbEv address (SetDefaults opts) of (events, err) \<Rightarrow>
       (case err of
          Some er \<Rightarrow> (None, Some er)
        | None \<Rightarrow>
           (case dbABI address of (contractABI, err) \<Rightarrow>
             (case err of
                Some er \<Rightarrow> (None, Some er)
              | None \<Rightarrow> parseEvents newParsedEvent ParseEvent contractABI events []))))"
proof -
  have tx: "GetAllTransactionsToAddress SetDefaults emptyOptions dbTx address None =
      Some (dbTx address (SetDefaults emptyOptions))"
    "GetAllTransactionsToAddress SetDefaults emptyOptions dbTx address (Some q) =
      Some (dbTx address (SetDefaults q))" for q
    by (simp_all add: GetAllTransactionsToAddress_def)
  have itx: "GetAllTransactionsInternalToAddress SetDefaults emptyOptions dbItx address None =
      Some (dbItx address (SetDefaults emptyOptions))"
    "GetAllTransactionsInternalToAddress SetDefaults emptyOptions dbItx address (Some q) =
      Some (dbItx address (SetDefaults q))" for q
    by (simp_all add: GetAllTransactionsInternalToAddress_def)
  have ev: "GetAllEventsFromAddress SetDefaults emptyOptions dbEv dbABI newParsedEvent ParseEvent
        address None =
      Some (case dbEv address (SetDefaults emptyOptions) of (events, err) \<Rightarrow>
       (case err of
          Some er \<Rightarrow> (None, Some er)
        | None \<Rightarrow>
           (case dbABI address of (contractABI, err) \<Rightarrow>
             (case err of
                Some er \<Rightarrow> (None, Some er)
              | None \<Rightarrow> parseEvents newParsedEvent ParseEvent contractABI events []))))"
    "GetAllEventsFromAddress SetDefaults emptyOptions dbEv dbABI newParsedEvent ParseEvent
        address (Some q) =
      Some (case dbEv address (SetDefaults q) of (events, err) \<Rightarrow>
       (case err of
          Some er \<Rightarrow> (None, Some er)
        | None \<Rightarrow>
           (case dbABI address of (contractABI, err) \<Rightarrow>
             (case err of
                Some er \<Rightarrow> (None, Some er)
              | None \<Rightarrow> parseEvents newParsedEvent ParseEvent contractABI events []))))" for q
    by (simp_all add: GetAllEventsFromAddress_def)
  have total:
    "GetAllTransactionsToAddress SetDefaults emptyOptions dbTx address options \<noteq> None"
    "GetAllTransactionsInternalToAddress SetDefaults emptyOptions dbItx address options \<noteq> None"
    "GetAllEventsFromAddress SetDefaults emptyOptions dbEv dbABI newParsedEvent ParseEvent address
       options \<noteq> None"
    by (cases options; simp add: tx itx ev)+
  show ?thesis
    by (simp only: tx itx ev total simp_thms)
qed

text \<open>
  A database that answers with the page size it is asked for: the nil options reach it as
  the default page size 10, in the transaction queries and in the event query.
\<close>

theorem query_options_nil_total_witness:
  "GetAllTransactionsToAddress pageDefaults 0 db_one_tx 3 None = Some ([10], None) \<and>
   GetAllTransactionsInternalToAddress pageDefaults 0 db_one_tx 3 None = Some ([10], None) \<and>
   GetAllEventsFromAddress pageDefaults 0 db_one_event db_no_abi event_id parse_event_id 3 None =
     Some (Some [10], None) \<and>
   GetAllEventsFromAddress pageDefaults 0 db_one_event db_no_abi event_id parse_event_id 3 (Some 0) =
     Some (Some [10], None) \<and>
   GetAllEventsFromAddress pageDefaults 0 db_one_event db_no_abi event_id parse_event_id 3 (Some 25) =
     Some (Some [25], None)"
  using query_options_nil_total [of pageDefaults 0 db_one_tx 3 None 25 db_one_tx db_one_event
      db_no_abi event_id parse_event_id]
  by (auto simp: pageDefaults_def db_one_tx_def db_one_event_def db_no_abi_def event_id_def)

text \<open>
  Claim C10.  For the zero address, AddAddress returns the error "invalid input" and
  leaves the database as it is; for every other address it is the call of
  \<^verbatim>\<open>AddAddresses\<close> of the database with that one address.
\<close>

theorem AddAddress_zero_rejected:
  "AddAddress dbAddAddresses 0 db = (Some (Error ''invalid input''), db) \<and>
   (address \<noteq> 0 \<longrightarrow> AddAddress dbAddAddresses address db = dbAddAddresses [address] db)"
  by (simp add: AddAddress_def)

theorem AddAddress_zero_rejected_witness:
  "AddAddress mem_AddAddresses 0 [5] = (Some (Error ''invalid input''), [5]) \<and>
   AddAddress mem_AddAddresses 7 [5] = (None, [5, 7])"
  using AddAddress_zero_rejected [of mem_AddAddresses "[5]" 7]
  by (simp add: mem_AddAddresses_def)

end
